theory Spec2Isabelle
  imports Main
begin

section \<open>Exceptions and dictionary access\<close>

text \<open>
  The exception classes named in \<^verbatim>\<open>__init__.py\<close>. A constructor stands for the
  instances the corresponding \<^verbatim>\<open>except\<close> clause catches; \<open>OtherException\<close> is any
  exception none of the clauses names.
\<close>

datatype exn =
    KeyError string
  | BadCredentialsException
  | NotSuchTokenException
  | TooManyRequestsException
  | TimeoutError
  | ClientError
  | ClientConnectorError
  | ServerDisconnectedError
  | MaintenanceException
  | ConfigEntryAuthFailed string
  | ConfigEntryNotReady string
  | OtherException string

text \<open>\<^verbatim>\<open>d[k]\<close> on a dictionary with string keys: a missing key raises KeyError.\<close>

definition getitem :: "(string \<rightharpoonup> 'v) \<Rightarrow> string \<Rightarrow> exn + 'v" where
  "getitem d k = (case d k of None \<Rightarrow> Inl (KeyError k) | Some v \<Rightarrow> Inr v)"

text \<open>
  \<^verbatim>\<open>d.get(k)\<close> on a dictionary whose values may themselves be \<^verbatim>\<open>None\<close>: the
  result is \<^verbatim>\<open>None\<close> both for a missing key and for a key stored with \<^verbatim>\<open>None\<close>.
\<close>

definition dict_get :: "('k \<rightharpoonup> 'v option) \<Rightarrow> 'k \<Rightarrow> 'v option" where
  "dict_get d k = (case d k of None \<Rightarrow> None | Some v \<Rightarrow> v)"

section \<open>Data model\<close>

text \<open>The values of pyoverkiz's \<^verbatim>\<open>APIType\<close> string enumeration.\<close>

definition APIType_CLOUD :: string where
  "APIType_CLOUD = ''cloud''"

definition APIType_LOCAL :: string where
  "APIType_LOCAL = ''local''"

text \<open>The configuration keys of \<^verbatim>\<open>homeassistant.const\<close>.\<close>

definition CONF_HOST :: string where
  "CONF_HOST = ''host''"

definition CONF_PASSWORD :: string where
  "CONF_PASSWORD = ''password''"

definition CONF_TOKEN :: string where
  "CONF_TOKEN = ''token''"

definition CONF_USERNAME :: string where
  "CONF_USERNAME = ''username''"

text \<open>The host framework's \<^verbatim>\<open>Platform\<close> enumeration; every member is truthy.\<close>

datatype Platform = Platform string

record ConfigEntry =
  entry_id :: string
  version :: int
  entry_data :: "string \<rightharpoonup> string"

record OverkizServer =
  server_name :: string
  endpoint :: string
  manufacturer :: string
  configuration_url :: "string option"

record ClientSession =
  verify_ssl :: bool

record OverkizClient =
  username :: string
  password :: string
  token :: "string option"
  session :: ClientSession
  server :: OverkizServer

record Device =
  device_url :: string
  widget :: string
  ui_class :: string

type_synonym Scenario = string

type_synonym Place = string

text \<open>
  A member of one of pyoverkiz's integer enumerations (\<^verbatim>\<open>GatewayType\<close>,
  \<^verbatim>\<open>GatewaySubType\<close>): truthy exactly when its value is not zero.
\<close>

record IntEnum =
  enum_value :: int
  beautify_name :: string

record Gateway =
  gateway_id :: string
  sub_type :: "IntEnum option"
  gateway_type :: "IntEnum option"
  protocol_version :: "string option"

record Setup =
  setup_devices :: "Device list"
  root_place :: Place
  gateways :: "Gateway list"

text \<open>
  Modelled from the spec: \<^verbatim>\<open>coordinator.py\<close> (class OverkizDataUpdateCoordinator) is
  not part of the given source. Per the spec the coordinator is constructible with
  (name, client, devices, places, polling interval, entry id) and exposes \<open>data\<close>
  (device id to device, in insertion order), \<open>is_stateless\<close> and a mutable polling
  interval. Intervals are counted in seconds.
\<close>

record OverkizDataUpdateCoordinator =
  coordinator_name :: string
  coordinator_client :: OverkizClient
  devices :: "Device list"
  places :: Place
  update_interval :: int
  config_entry_id :: string
  coordinator_data :: "(string \<times> Device) list"
  is_stateless :: bool

record HomeAssistantOverkizData =
  coordinator :: OverkizDataUpdateCoordinator
  platforms :: "Platform \<rightharpoonup> Device list"
  scenarios :: "Scenario list"

text \<open>The keyword arguments of one \<^verbatim>\<open>device_registry.async_get_or_create\<close> call.\<close>

record DeviceEntry =
  de_config_entry_id :: string
  identifiers :: "(string \<times> string) list"
  model :: "string option"
  de_manufacturer :: string
  de_name :: string
  sw_version :: "string option"
  de_configuration_url :: "string option"

text \<open>The calls into external collaborators, in the order they are made.\<close>

datatype event =
    CreateClientSession bool
  | Login
  | GetSetup
  | GetScenarios
  | NewCoordinator string
  | FirstRefresh
  | GetOrCreateDevice DeviceEntry
  | ForwardEntrySetups string "Platform list"
  | UnloadPlatforms string "Platform list"
  | UpdateEntry string

text \<open>
  The part of the \<^verbatim>\<open>HomeAssistant\<close> object the module touches: \<open>hass_data_domain\<close> is
  \<^verbatim>\<open>hass.data.get(DOMAIN)\<close> (the module's registry, entry id to bundle),
  \<open>config_entries\<close> the persisted config entries, \<open>calls\<close> the log of external calls.
\<close>

record HomeAssistant =
  hass_data_domain :: "(string \<rightharpoonup> HomeAssistantOverkizData) option"
  config_entries :: "string \<rightharpoonup> ConfigEntry"
  calls :: "event list"

text \<open>
  The constants imported from \<^verbatim>\<open>const.py\<close>, which is not part of the given source:
  they are parameters of every function below.
\<close>

record constants =
  CONF_API_TYPE :: string
  CONF_HUB :: string
  CONF_SERVER :: string
  DOMAIN :: string
  OVERKIZ_DEVICE_TO_PLATFORM :: "string \<rightharpoonup> Platform option"
  PLATFORMS :: "Platform list"
  UPDATE_INTERVAL :: int
  UPDATE_INTERVAL_ALL_ASSUMED_STATE :: int

text \<open>
  What the external world answers during one run: the pyoverkiz tables and helpers, the
  outcome of each network call (\<open>Inl\<close> is the exception it raises), the coordinator's
  internals, and the outcomes of the host framework's calls.
\<close>

record env =
  SUPPORTED_SERVERS :: "string \<rightharpoonup> OverkizServer"
  generate_local_server :: "string \<Rightarrow> OverkizServer"
  login_result :: "exn + unit"
  get_setup_result :: "exn + Setup"
  get_scenarios_result :: "exn + Scenario list"
  scenarios_fail_first :: bool
  stateless_result :: bool
  first_refresh_result :: "exn + (string \<times> Device) list"
  get_or_create_result :: "DeviceEntry \<Rightarrow> exn option"
  forward_result :: "exn option"
  unload_platforms_result :: "exn + bool"

definition record_call :: "event \<Rightarrow> HomeAssistant \<Rightarrow> HomeAssistant" where
  "record_call ev h = h\<lparr>calls := calls h @ [ev]\<rparr>"

definition get_bundle :: "HomeAssistant \<Rightarrow> string \<Rightarrow> HomeAssistantOverkizData option" where
  "get_bundle h k = (case hass_data_domain h of None \<Rightarrow> None | Some m \<Rightarrow> m k)"

section \<open>async_migrate_entry\<close>

text \<open>
  \<^verbatim>\<open>hass.config_entries.async_update_entry(entry, data=...)\<close>: the host framework
  replaces the entry's data and persists the entry.
\<close>

definition async_update_entry ::
  "HomeAssistant \<Rightarrow> ConfigEntry \<Rightarrow> (string \<rightharpoonup> string) \<Rightarrow> HomeAssistant \<times> ConfigEntry" where
  "async_update_entry h entry d =
     (let entry' = entry\<lparr>entry_data := d\<rparr>;
          h1 = record_call (UpdateEntry (entry_id entry)) h
      in (h1\<lparr>config_entries := (config_entries h1)(entry_id entry \<mapsto> entry')\<rparr>, entry'))"

text \<open>
  The result is the state after the call (the framework object and the entry, both of
  which the code mutates) and the value returned or the exception raised.
\<close>

definition async_migrate_entry ::
  "constants \<Rightarrow> HomeAssistant \<Rightarrow> ConfigEntry \<Rightarrow> (HomeAssistant \<times> ConfigEntry) \<times> (exn + bool)" where
  "async_migrate_entry K h entry =
     (if version entry = 1 then
        (case getitem (entry_data entry) (CONF_HUB K) of
           Inl e \<Rightarrow> ((h, entry), Inl e)
         | Inr hub \<Rightarrow>
             (let v2_entry_data = (entry_data entry)(CONF_SERVER K \<mapsto> hub);
                  v2_entry_data = v2_entry_data(CONF_HUB K := None);
                  v2_entry_data = v2_entry_data(CONF_API_TYPE K \<mapsto> APIType_CLOUD);
                  entry = entry\<lparr>version := 2\<rparr>
              in (async_update_entry h entry v2_entry_data, Inr True)))
      else ((h, entry), Inr True))"

section \<open>async_setup_entry\<close>

text \<open>
  \<^verbatim>\<open>async_create_clientsession(hass, verify_ssl=...)\<close>: a new session with the
  given certificate-verification flag.
\<close>

definition async_create_clientsession :: "HomeAssistant \<Rightarrow> bool \<Rightarrow> HomeAssistant \<times> ClientSession" where
  "async_create_clientsession h v = (record_call (CreateClientSession v) h, \<lparr>verify_ssl = v\<rparr>)"

text \<open>Lines 80 to 108: the client is built from the entry, by API type.\<close>

definition make_client ::
  "constants \<Rightarrow> env \<Rightarrow> HomeAssistant \<Rightarrow> ConfigEntry \<Rightarrow> HomeAssistant \<times> (exn + OverkizClient)" where
  "make_client K E h entry =
     (case getitem (entry_data entry) (CONF_API_TYPE K) of
        Inl e \<Rightarrow> (h, Inl e)
      | Inr api \<Rightarrow>
          if api = APIType_LOCAL then
            (case getitem (entry_data entry) CONF_HOST of
               Inl e \<Rightarrow> (h, Inl e)
             | Inr host \<Rightarrow>
                 (case getitem (entry_data entry) CONF_TOKEN of
                    Inl e \<Rightarrow> (h, Inl e)
                  | Inr tok \<Rightarrow>
                      (let (h1, s) = async_create_clientsession h False
                       in (h1, Inr \<lparr>username = [], password = [], token = Some tok,
                                    session = s, server = generate_local_server E host\<rparr>))))
          else
            (case getitem (entry_data entry) CONF_USERNAME of
               Inl e \<Rightarrow> (h, Inl e)
             | Inr u \<Rightarrow>
                 (case getitem (entry_data entry) CONF_PASSWORD of
                    Inl e \<Rightarrow> (h, Inl e)
                  | Inr p \<Rightarrow>
                      (case getitem (entry_data entry) (CONF_SERVER K) of
                         Inl e \<Rightarrow> (h, Inl e)
                       | Inr key \<Rightarrow>
                           (case getitem (SUPPORTED_SERVERS E) key of
                              Inl e \<Rightarrow> (h, Inl e)
                            | Inr srv \<Rightarrow>
                                (let (h1, s) = async_create_clientsession h True
                                 in (h1, Inr \<lparr>username = u, password = p, token = None,
                                              session = s, server = srv\<rparr>)))))))"

text \<open>
  \<^verbatim>\<open>asyncio.gather(client.get_setup(), client.get_scenarios())\<close>: both requests are
  started; the first exception raised is the one propagated.
\<close>

definition gather :: "env \<Rightarrow> exn + (Setup \<times> Scenario list)" where
  "gather E =
     (case get_setup_result E of
        Inl e1 \<Rightarrow>
          (case get_scenarios_result E of
             Inl e2 \<Rightarrow> Inl (if scenarios_fail_first E then e2 else e1)
           | Inr _ \<Rightarrow> Inl e1)
      | Inr s \<Rightarrow>
          (case get_scenarios_result E of
             Inl e2 \<Rightarrow> Inl e2
           | Inr sc \<Rightarrow> Inr (s, sc)))"

text \<open>The body of the \<^verbatim>\<open>try\<close> block, lines 111 to 118.\<close>

definition login_and_fetch :: "env \<Rightarrow> HomeAssistant \<Rightarrow> HomeAssistant \<times> (exn + (Setup \<times> Scenario list))" where
  "login_and_fetch E h =
     (let h1 = record_call Login h in
      case login_result E of
        Inl e \<Rightarrow> (h1, Inl e)
      | Inr _ \<Rightarrow> (record_call GetScenarios (record_call GetSetup h1), gather E))"

text \<open>The \<^verbatim>\<open>except\<close> clauses, lines 119 to 131, in their order; anything else propagates.\<close>

fun handle_exception :: "exn \<Rightarrow> exn" where
  "handle_exception BadCredentialsException = ConfigEntryAuthFailed ''Invalid authentication''"
| "handle_exception NotSuchTokenException = ConfigEntryAuthFailed ''Invalid authentication''"
| "handle_exception TooManyRequestsException = ConfigEntryNotReady ''Too many requests, try again later''"
| "handle_exception TimeoutError = ConfigEntryNotReady ''Failed to connect''"
| "handle_exception ClientError = ConfigEntryNotReady ''Failed to connect''"
| "handle_exception ClientConnectorError = ConfigEntryNotReady ''Failed to connect''"
| "handle_exception ServerDisconnectedError = ConfigEntryNotReady ''Failed to connect''"
| "handle_exception MaintenanceException = ConfigEntryNotReady ''Server is down for maintenance''"
| "handle_exception e = e"

text \<open>
  Modelled from the spec: the constructor of OverkizDataUpdateCoordinator, which is not
  part of the given source. It keeps its arguments; \<open>is_stateless\<close> (every device
  reports an assumed state) is computed by the coordinator's internals and is taken from
  the environment; \<open>data\<close> is empty until the first refresh.
\<close>

definition new_coordinator ::
  "env \<Rightarrow> string \<Rightarrow> OverkizClient \<Rightarrow> Device list \<Rightarrow> Place \<Rightarrow> int \<Rightarrow> string \<Rightarrow> OverkizDataUpdateCoordinator" where
  "new_coordinator E n c ds p i eid =
     \<lparr>coordinator_name = n, coordinator_client = c, devices = ds, places = p,
      update_interval = i, config_entry_id = eid, coordinator_data = [],
      is_stateless = stateless_result E\<rparr>"

text \<open>
  Modelled from the spec: \<^verbatim>\<open>async_config_entry_first_refresh\<close>, which is not part of
  the given source. It either raises, or fills \<open>data\<close> with the devices fetched; the
  polling interval the coordinator was constructed with is not touched.
\<close>

definition async_config_entry_first_refresh ::
  "env \<Rightarrow> HomeAssistant \<Rightarrow> OverkizDataUpdateCoordinator \<Rightarrow>
   HomeAssistant \<times> (exn + OverkizDataUpdateCoordinator)" where
  "async_config_entry_first_refresh E h co =
     (let h1 = record_call FirstRefresh h in
      case first_refresh_result E of
        Inl e \<Rightarrow> (h1, Inl e)
      | Inr d \<Rightarrow> (h1, Inr (co\<lparr>coordinator_data := d\<rparr>)))"

text \<open>
  Lines 172 to 174: \<^verbatim>\<open>TABLE.get(device.widget) or TABLE.get(device.ui_class)\<close>. A
  platform is truthy, so the second lookup is used exactly when the first gives None.
\<close>

definition lookup_platform :: "constants \<Rightarrow> Device \<Rightarrow> Platform option" where
  "lookup_platform K d =
     (case dict_get (OVERKIZ_DEVICE_TO_PLATFORM K) (widget d) of
        Some p \<Rightarrow> Some p
      | None \<Rightarrow> dict_get (OVERKIZ_DEVICE_TO_PLATFORM K) (ui_class d))"

text \<open>Reading a \<^verbatim>\<open>defaultdict(list)\<close>: a missing key gives the empty list.\<close>

definition bucket :: "(Platform \<rightharpoonup> Device list) \<Rightarrow> Platform \<Rightarrow> Device list" where
  "bucket pf p = (case pf p of None \<Rightarrow> [] | Some ds \<Rightarrow> ds)"

text \<open>\<^verbatim>\<open>platforms[platform].append(device)\<close>.\<close>

definition append_device :: "(Platform \<rightharpoonup> Device list) \<Rightarrow> Platform \<Rightarrow> Device \<Rightarrow> (Platform \<rightharpoonup> Device list)" where
  "append_device pf p d = pf(p \<mapsto> bucket pf p @ [d])"

text \<open>The loop of lines 163 to 175 over \<^verbatim>\<open>coordinator.data.values()\<close>.\<close>

fun map_devices :: "constants \<Rightarrow> Device list \<Rightarrow> (Platform \<rightharpoonup> Device list) \<Rightarrow> (Platform \<rightharpoonup> Device list)" where
  "map_devices K [] pf = pf"
| "map_devices K (d # ds) pf =
     map_devices K ds
       (case lookup_platform K d of
          Some p \<Rightarrow> append_device pf p d
        | None \<Rightarrow> pf)"

text \<open>Truthiness of an optional integer-enumeration member.\<close>

definition truthy :: "IntEnum option \<Rightarrow> bool" where
  "truthy x = (case x of None \<Rightarrow> False | Some m \<Rightarrow> enum_value m \<noteq> 0)"

text \<open>The arguments of the registry call for one gateway, lines 182 to 190.\<close>

definition gateway_entry :: "constants \<Rightarrow> ConfigEntry \<Rightarrow> OverkizClient \<Rightarrow> Gateway \<Rightarrow> DeviceEntry" where
  "gateway_entry K entry client g =
     \<lparr>de_config_entry_id = entry_id entry,
      identifiers = [(DOMAIN K, gateway_id g)],
      model = (if truthy (sub_type g) then map_option beautify_name (sub_type g) else None),
      de_manufacturer = manufacturer (server client),
      de_name = (if truthy (gateway_type g)
                 then (case gateway_type g of Some m \<Rightarrow> beautify_name m | None \<Rightarrow> gateway_id g)
                 else gateway_id g),
      sw_version = protocol_version g,
      de_configuration_url = configuration_url (server client)\<rparr>"

text \<open>The loop of lines 179 to 190; it stops at the first call that raises.\<close>

fun register_gateways ::
  "constants \<Rightarrow> env \<Rightarrow> ConfigEntry \<Rightarrow> OverkizClient \<Rightarrow> HomeAssistant \<Rightarrow> Gateway list \<Rightarrow>
   HomeAssistant \<times> exn option" where
  "register_gateways K E entry client h [] = (h, None)"
| "register_gateways K E entry client h (g # gs) =
     (let de = gateway_entry K entry client g;
          h1 = record_call (GetOrCreateDevice de) h
      in case get_or_create_result E de of
           Some e \<Rightarrow> (h1, Some e)
         | None \<Rightarrow> register_gateways K E entry client h1 gs)"

text \<open>
  \<^verbatim>\<open>hass.data.setdefault(DOMAIN, {})[entry_id] = bundle\<close>.
\<close>

definition store_bundle :: "HomeAssistant \<Rightarrow> string \<Rightarrow> HomeAssistantOverkizData \<Rightarrow> HomeAssistant" where
  "store_bundle h k b =
     h\<lparr>hass_data_domain :=
         Some ((case hass_data_domain h of None \<Rightarrow> Map.empty | Some m \<Rightarrow> m)(k \<mapsto> b))\<rparr>"

text \<open>
  Lines 133 to 194, after login and the inventory fetch have succeeded. The bundle is
  stored at line 158 with the still empty \<open>platforms\<close> dictionary; the loop then fills
  that same dictionary, so the stored bundle is written again with the filled one.
\<close>

definition finish_setup ::
  "constants \<Rightarrow> env \<Rightarrow> HomeAssistant \<Rightarrow> ConfigEntry \<Rightarrow> OverkizClient \<Rightarrow> Setup \<Rightarrow> Scenario list \<Rightarrow>
   HomeAssistant \<times> (exn + bool)" where
  "finish_setup K E h entry client setup scs =
     (let co = new_coordinator E ''device events'' client (setup_devices setup) (root_place setup)
                 (UPDATE_INTERVAL K) (entry_id entry);
          h1 = record_call (NewCoordinator (entry_id entry)) h
      in case async_config_entry_first_refresh E h1 co of
           (h2, Inl e) \<Rightarrow> (h2, Inl e)
         | (h2, Inr co1) \<Rightarrow>
             (let co2 = (if is_stateless co1
                         then co1\<lparr>update_interval := UPDATE_INTERVAL_ALL_ASSUMED_STATE K\<rparr>
                         else co1);
                  b = \<lparr>coordinator = co2, platforms = Map.empty, scenarios = scs\<rparr>;
                  h3 = store_bundle h2 (entry_id entry) b;
                  pf = map_devices K (map snd (coordinator_data co2)) Map.empty;
                  h4 = store_bundle h3 (entry_id entry) (b\<lparr>platforms := pf\<rparr>)
              in case register_gateways K E entry client h4 (gateways setup) of
                   (h5, Some e) \<Rightarrow> (h5, Inl e)
                 | (h5, None) \<Rightarrow>
                     (let h6 = record_call (ForwardEntrySetups (entry_id entry) (PLATFORMS K)) h5
                      in case forward_result E of
                           Some e \<Rightarrow> (h6, Inl e)
                         | None \<Rightarrow> (h6, Inr True))))"

text \<open>
  The whole function: the framework object after the call, and the value returned or
  the exception raised.
\<close>

definition async_setup_entry ::
  "constants \<Rightarrow> env \<Rightarrow> HomeAssistant \<Rightarrow> ConfigEntry \<Rightarrow> HomeAssistant \<times> (exn + bool)" where
  "async_setup_entry K E h entry =
     (case make_client K E h entry of
        (h1, Inl e) \<Rightarrow> (h1, Inl e)
      | (h1, Inr client) \<Rightarrow>
          (case login_and_fetch E h1 of
             (h2, Inl e) \<Rightarrow> (h2, Inl (handle_exception e))
           | (h2, Inr (setup, scs)) \<Rightarrow> finish_setup K E h2 entry client setup scs))"

section \<open>async_unload_entry\<close>

text \<open>
  \<^verbatim>\<open>hass.data[DOMAIN].pop(entry.entry_id)\<close> raises KeyError when the registry or the
  key is missing.
\<close>

definition async_unload_entry ::
  "constants \<Rightarrow> env \<Rightarrow> HomeAssistant \<Rightarrow> ConfigEntry \<Rightarrow> HomeAssistant \<times> (exn + bool)" where
  "async_unload_entry K E h entry =
     (let h1 = record_call (UnloadPlatforms (entry_id entry) (PLATFORMS K)) h in
      case unload_platforms_result E of
        Inl e \<Rightarrow> (h1, Inl e)
      | Inr unload_ok \<Rightarrow>
          if unload_ok then
            (case hass_data_domain h1 of
               None \<Rightarrow> (h1, Inl (KeyError (DOMAIN K)))
             | Some m \<Rightarrow>
                 (case m (entry_id entry) of
                    None \<Rightarrow> (h1, Inl (KeyError (entry_id entry)))
                  | Some _ \<Rightarrow> (h1\<lparr>hass_data_domain := Some (m(entry_id entry := None))\<rparr>, Inr unload_ok)))
          else (h1, Inr unload_ok))"


section \<open>Observations on the log of external calls\<close>

definition is_new_coordinator :: "event \<Rightarrow> bool" where
  "is_new_coordinator ev = (case ev of NewCoordinator _ \<Rightarrow> True | _ \<Rightarrow> False)"

text \<open>The external calls made between the state \<open>h\<close> and the later state \<open>h'\<close>.\<close>

definition new_calls :: "HomeAssistant \<Rightarrow> HomeAssistant \<Rightarrow> event list" where
  "new_calls h h' = drop (length (calls h)) (calls h')"

definition coordinator_created :: "HomeAssistant \<Rightarrow> HomeAssistant \<Rightarrow> bool" where
  "coordinator_created h h' = list_ex is_new_coordinator (new_calls h h')"


text \<open>The bundle that lines 133 to 175 leave in the registry.\<close>

definition setup_bundle ::
  "constants \<Rightarrow> env \<Rightarrow> ConfigEntry \<Rightarrow> OverkizClient \<Rightarrow> Setup \<Rightarrow> Scenario list \<Rightarrow>
   (string \<times> Device) list \<Rightarrow> HomeAssistantOverkizData" where
  "setup_bundle K E entry client setup scs d =
     \<lparr>coordinator =
        (new_coordinator E ''device events'' client (setup_devices setup) (root_place setup)
           (UPDATE_INTERVAL K) (entry_id entry))
        \<lparr>coordinator_data := d,
         update_interval := (if stateless_result E then UPDATE_INTERVAL_ALL_ASSUMED_STATE K
                             else UPDATE_INTERVAL K)\<rparr>,
      platforms = map_devices K (map snd d) Map.empty,
      scenarios = scs\<rparr>"

section \<open>Concrete inputs\<close>

definition example_constants :: constants where
  "example_constants =
     \<lparr>CONF_API_TYPE = ''api_type'', CONF_HUB = ''hub'', CONF_SERVER = ''server'',
      DOMAIN = ''overkiz'',
      OVERKIZ_DEVICE_TO_PLATFORM =
        [''Light'' \<mapsto> Some (Platform ''light''),
         ''WaterHeatingSystem'' \<mapsto> Some (Platform ''water_heater''),
         ''DomesticHotWaterTank'' \<mapsto> Some (Platform ''switch''),
         ''SirenStatus'' \<mapsto> None],
      PLATFORMS = [Platform ''light'', Platform ''switch'', Platform ''water_heater''],
      UPDATE_INTERVAL = 30,
      UPDATE_INTERVAL_ALL_ASSUMED_STATE = 3600\<rparr>"

definition example_server :: OverkizServer where
  "example_server =
     \<lparr>server_name = ''Somfy'', endpoint = ''https://cloud/'', manufacturer = ''Somfy'',
      configuration_url = Some ''https://www''\<rparr>"

definition example_lamp :: Device where
  "example_lamp = \<lparr>device_url = ''io://1'', widget = ''DimmerLight'', ui_class = ''Light''\<rparr>"

definition example_tank :: Device where
  "example_tank =
     \<lparr>device_url = ''io://2'', widget = ''DomesticHotWaterTank'', ui_class = ''WaterHeatingSystem''\<rparr>"

definition example_pod :: Device where
  "example_pod = \<lparr>device_url = ''internal://3'', widget = ''Pod'', ui_class = ''Pod''\<rparr>"

definition example_gateway :: Gateway where
  "example_gateway =
     \<lparr>gateway_id = ''1234-5678'',
      sub_type = Some \<lparr>enum_value = 1, beautify_name = ''Tahoma Basic''\<rparr>,
      gateway_type = Some \<lparr>enum_value = 0, beautify_name = ''Virtual Kizbox''\<rparr>,
      protocol_version = Some ''2023.1''\<rparr>"

definition example_setup :: Setup where
  "example_setup =
     \<lparr>setup_devices = [example_lamp, example_tank, example_pod], root_place = ''home'',
      gateways = [example_gateway]\<rparr>"

definition example_env :: env where
  "example_env =
     \<lparr>SUPPORTED_SERVERS = [''somfy_europe'' \<mapsto> example_server],
      generate_local_server =
        (\<lambda>host. \<lparr>server_name = ''Somfy Developer Mode'', endpoint = ''https://'' @ host,
                  manufacturer = ''Somfy'', configuration_url = None\<rparr>),
      login_result = Inr (),
      get_setup_result = Inr example_setup,
      get_scenarios_result = Inr [''evening''],
      scenarios_fail_first = False,
      stateless_result = False,
      first_refresh_result =
        Inr [(''io://1'', example_lamp), (''io://2'', example_tank), (''internal://3'', example_pod)],
      get_or_create_result = (\<lambda>_. None),
      forward_result = None,
      unload_platforms_result = Inr True\<rparr>"

definition example_entry_v1 :: ConfigEntry where
  "example_entry_v1 =
     \<lparr>entry_id = ''e1'', version = 1,
      entry_data = [''username'' \<mapsto> ''u'', ''password'' \<mapsto> ''p'', ''hub'' \<mapsto> ''somfy_europe'']\<rparr>"

definition example_entry_cloud :: ConfigEntry where
  "example_entry_cloud =
     \<lparr>entry_id = ''e1'', version = 2,
      entry_data = [''username'' \<mapsto> ''u'', ''password'' \<mapsto> ''p'',
                    ''server'' \<mapsto> ''somfy_europe'', ''api_type'' \<mapsto> ''cloud'']\<rparr>"

definition example_entry_local :: ConfigEntry where
  "example_entry_local =
     \<lparr>entry_id = ''e1'', version = 2,
      entry_data = [''host'' \<mapsto> ''gw:8443'', ''token'' \<mapsto> ''t0'', ''api_type'' \<mapsto> ''local'']\<rparr>"

definition example_hass :: HomeAssistant where
  "example_hass = \<lparr>hass_data_domain = None, config_entries = Map.empty, calls = []\<rparr>"

definition example_client :: OverkizClient where
  "example_client =
     \<lparr>username = ''u'', password = ''p'', token = None, session = \<lparr>verify_ssl = True\<rparr>,
      server = example_server\<rparr>"

definition example_bundle :: HomeAssistantOverkizData where
  "example_bundle =
     \<lparr>coordinator = new_coordinator example_env ''device events'' example_client [] ''home'' 30 ''e1'',
      platforms = Map.empty, scenarios = []\<rparr>"

definition example_other_bundle :: HomeAssistantOverkizData where
  "example_other_bundle =
     \<lparr>coordinator = new_coordinator example_env ''device events'' example_client [] ''flat'' 30 ''e2'',
      platforms = Map.empty, scenarios = [''morning'']\<rparr>"

definition example_hass_loaded :: HomeAssistant where
  "example_hass_loaded =
     \<lparr>hass_data_domain = Some [''e1'' \<mapsto> example_bundle, ''e2'' \<mapsto> example_other_bundle],
      config_entries = Map.empty, calls = []\<rparr>"


section \<open>Effects of the steps on the framework object\<close>

lemma hass_data_domain_record_call [simp]:
  "hass_data_domain (record_call ev h) = hass_data_domain h"
  by (simp add: record_call_def)

lemma calls_record_call [simp]: "calls (record_call ev h) = calls h @ [ev]"
  by (simp add: record_call_def)

lemma get_bundle_record_call [simp]: "get_bundle (record_call ev h) k = get_bundle h k"
  by (simp add: get_bundle_def)

lemma make_client_effects:
  assumes "make_client K E h entry = (h1, r)"
  shows "hass_data_domain h1 = hass_data_domain h \<and>
         (\<exists>evs. calls h1 = calls h @ evs \<and> \<not> list_ex is_new_coordinator evs)"
  using assms
  by (auto simp: make_client_def async_create_clientsession_def is_new_coordinator_def
      split: sum.splits if_splits)

lemma login_and_fetch_effects:
  assumes "login_and_fetch E h = (h1, r)"
  shows "hass_data_domain h1 = hass_data_domain h \<and>
         (\<exists>evs. calls h1 = calls h @ evs \<and> \<not> list_ex is_new_coordinator evs)"
  using assms
  by (auto simp: login_and_fetch_def Let_def is_new_coordinator_def split: sum.splits)

lemma login_and_fetch_result:
  "snd (login_and_fetch E h) = (case login_result E of Inl e \<Rightarrow> Inl e | Inr _ \<Rightarrow> gather E)"
  by (simp add: login_and_fetch_def Let_def split: sum.splits)

lemma setup_early_failure:
  assumes "make_client K E h entry = (h1, Inr client)"
    and "login_and_fetch E h1 = (h2, Inl e)"
  shows "async_setup_entry K E h entry = (h2, Inl (handle_exception e))"
  using assms by (simp add: async_setup_entry_def)

text \<open>
  When the \<^verbatim>\<open>try\<close> block raises, the handlers decide the exception of the whole call;
  the registry is as before and no coordinator has been constructed.
\<close>

lemma setup_early_failure_effects:
  assumes "snd (make_client K E h entry) = Inr client"
    and "snd (login_and_fetch E (fst (make_client K E h entry))) = Inl e"
  shows "snd (async_setup_entry K E h entry) = Inl (handle_exception e) \<and>
         hass_data_domain (fst (async_setup_entry K E h entry)) = hass_data_domain h \<and>
         \<not> coordinator_created h (fst (async_setup_entry K E h entry))"
proof -
  obtain h1 where mc: "make_client K E h entry = (h1, Inr client)"
    using assms(1) by (cases "make_client K E h entry") auto
  obtain h2 where lf: "login_and_fetch E h1 = (h2, Inl e)"
    using assms(2) mc by (cases "login_and_fetch E h1") auto
  have res: "async_setup_entry K E h entry = (h2, Inl (handle_exception e))"
    using mc lf by (rule setup_early_failure)
  from make_client_effects [OF mc] obtain evs1 where
    d1: "hass_data_domain h1 = hass_data_domain h" and
    c1: "calls h1 = calls h @ evs1" "\<not> list_ex is_new_coordinator evs1" by blast
  from login_and_fetch_effects [OF lf] obtain evs2 where
    d2: "hass_data_domain h2 = hass_data_domain h1" and
    c2: "calls h2 = calls h1 @ evs2" "\<not> list_ex is_new_coordinator evs2" by blast
  have "new_calls h h2 = evs1 @ evs2"
    using c1 c2 by (simp add: new_calls_def)
  then have "\<not> coordinator_created h h2"
    using c1(2) c2(2) by (auto simp: coordinator_created_def list_ex_iff)
  then show ?thesis using res d1 d2 by simp
qed

lemma example_cloud_client:
  "snd (make_client example_constants E example_hass example_entry_cloud) =
     (case SUPPORTED_SERVERS E ''somfy_europe'' of
        None \<Rightarrow> Inl (KeyError ''somfy_europe'')
      | Some srv \<Rightarrow> Inr \<lparr>username = ''u'', password = ''p'', token = None,
                         session = \<lparr>verify_ssl = True\<rparr>, server = srv\<rparr>)"
  by (simp add: make_client_def getitem_def example_constants_def example_entry_cloud_def
      APIType_LOCAL_def CONF_USERNAME_def CONF_PASSWORD_def async_create_clientsession_def
      split: option.splits)

section \<open>Setup: failures of login and of the inventory fetch\<close>

text \<open>
  C6. When the client has been built and login, or after a successful login the joint
  fetch of setup and scenarios, raises BadCredentialsException or NotSuchTokenException,
  async_setup_entry raises ConfigEntryAuthFailed, and no coordinator is constructed
  during the call.
\<close>

theorem setup_auth_failed:
  assumes "snd (make_client K E h entry) = Inr client"
    and "e = BadCredentialsException \<or> e = NotSuchTokenException"
    and "login_result E = Inl e \<or> (login_result E = Inr u \<and> gather E = Inl e)"
  shows "snd (async_setup_entry K E h entry) = Inl (ConfigEntryAuthFailed ''Invalid authentication'') \<and>
         \<not> coordinator_created h (fst (async_setup_entry K E h entry))"
proof -
  have "snd (login_and_fetch E (fst (make_client K E h entry))) = Inl e"
    using assms(3) by (auto simp: login_and_fetch_result)
  from setup_early_failure_effects [OF assms(1) this] assms(2)
  show ?thesis by auto
qed

theorem setup_auth_failed_witness:
  "snd (async_setup_entry example_constants
          (example_env\<lparr>get_scenarios_result := Inl NotSuchTokenException\<rparr>)
          example_hass example_entry_cloud) = Inl (ConfigEntryAuthFailed ''Invalid authentication'') \<and>
   \<not> coordinator_created example_hass
       (fst (async_setup_entry example_constants
          (example_env\<lparr>get_scenarios_result := Inl NotSuchTokenException\<rparr>)
          example_hass example_entry_cloud))"
proof -
  let ?E = "example_env\<lparr>get_scenarios_result := Inl NotSuchTokenException\<rparr>"
  have h1: "snd (make_client example_constants ?E example_hass example_entry_cloud) = Inr example_client"
    by (simp add: example_cloud_client example_env_def example_client_def)
  have h2: "NotSuchTokenException = BadCredentialsException \<or> NotSuchTokenException = NotSuchTokenException"
    by simp
  have h3: "login_result ?E = Inl NotSuchTokenException \<or>
            (login_result ?E = Inr () \<and> gather ?E = Inl NotSuchTokenException)"
    by (simp add: gather_def example_env_def)
  show ?thesis
    using setup_auth_failed [OF h1 h2 h3] by simp
qed

text \<open>
  C7. When the client has been built and login, or after a successful login the joint
  fetch of setup and scenarios, raises TooManyRequestsException, TimeoutError,
  ClientConnectorError, ClientError, ServerDisconnectedError or MaintenanceException,
  async_setup_entry raises ConfigEntryNotReady, and no coordinator is constructed
  during the call.
\<close>

theorem setup_not_ready:
  assumes "snd (make_client K E h entry) = Inr client"
    and "e \<in> {TooManyRequestsException, TimeoutError, ClientConnectorError, ClientError,
              ServerDisconnectedError, MaintenanceException}"
    and "login_result E = Inl e \<or> (login_result E = Inr u \<and> gather E = Inl e)"
  shows "(\<exists>msg. snd (async_setup_entry K E h entry) = Inl (ConfigEntryNotReady msg)) \<and>
         \<not> coordinator_created h (fst (async_setup_entry K E h entry))"
proof -
  have "snd (login_and_fetch E (fst (make_client K E h entry))) = Inl e"
    using assms(3) by (auto simp: login_and_fetch_result)
  from setup_early_failure_effects [OF assms(1) this] assms(2)
  show ?thesis by auto
qed

theorem setup_not_ready_witness:
  "(\<exists>msg. snd (async_setup_entry example_constants
          (example_env\<lparr>login_result := Inl MaintenanceException\<rparr>)
          example_hass example_entry_cloud) = Inl (ConfigEntryNotReady msg)) \<and>
   \<not> coordinator_created example_hass
       (fst (async_setup_entry example_constants
          (example_env\<lparr>login_result := Inl MaintenanceException\<rparr>)
          example_hass example_entry_cloud))"
proof -
  let ?E = "example_env\<lparr>login_result := Inl MaintenanceException\<rparr>"
  have h1: "snd (make_client example_constants ?E example_hass example_entry_cloud) = Inr example_client"
    by (simp add: example_cloud_client example_env_def example_client_def)
  have h2: "MaintenanceException \<in> {TooManyRequestsException, TimeoutError, ClientConnectorError,
              ClientError, ServerDisconnectedError, MaintenanceException}"
    by simp
  have h3: "login_result ?E = Inl MaintenanceException \<or>
            (login_result ?E = Inr () \<and> gather ?E = Inl MaintenanceException)"
    by simp
  show ?thesis
    using setup_not_ready [OF h1 h2 h3] by simp
qed

section \<open>Unload\<close>

text \<open>
  C2. When a bundle is stored for the entry and the platform-unload step reports the
  boolean \<open>ok\<close>, async_unload_entry returns exactly \<open>ok\<close>; afterwards the entry has no
  bundle in the registry if and only if \<open>ok\<close> is true, and when \<open>ok\<close> is false the
  bundle is still the one stored before.
\<close>

theorem unload_removes_iff_ok:
  assumes "get_bundle h (entry_id entry) = Some b"
    and "unload_platforms_result E = Inr ok"
  shows "snd (async_unload_entry K E h entry) = Inr ok \<and>
         (get_bundle (fst (async_unload_entry K E h entry)) (entry_id entry) = None \<longleftrightarrow> ok) \<and>
         (\<not> ok \<longrightarrow> get_bundle (fst (async_unload_entry K E h entry)) (entry_id entry) = Some b)"
  using assms
  by (auto simp: async_unload_entry_def Let_def get_bundle_def split: option.splits)

theorem unload_removes_iff_ok_witness:
  "get_bundle example_hass_loaded (entry_id example_entry_cloud) = Some example_bundle \<and>
   unload_platforms_result (example_env\<lparr>unload_platforms_result := Inr False\<rparr>) = Inr False \<and>
   snd (async_unload_entry example_constants (example_env\<lparr>unload_platforms_result := Inr False\<rparr>)
          example_hass_loaded example_entry_cloud) = Inr False \<and>
   get_bundle (fst (async_unload_entry example_constants
          (example_env\<lparr>unload_platforms_result := Inr False\<rparr>)
          example_hass_loaded example_entry_cloud)) ''e1'' = Some example_bundle \<and>
   snd (async_unload_entry example_constants example_env example_hass_loaded example_entry_cloud) = Inr True \<and>
   get_bundle (fst (async_unload_entry example_constants example_env
          example_hass_loaded example_entry_cloud)) ''e1'' = None"
proof -
  have h1: "get_bundle example_hass_loaded (entry_id example_entry_cloud) = Some example_bundle"
    by (simp add: get_bundle_def example_hass_loaded_def example_entry_cloud_def)
  have h2: "unload_platforms_result (example_env\<lparr>unload_platforms_result := Inr False\<rparr>) = Inr False"
    by simp
  have h3: "unload_platforms_result example_env = Inr True"
    by (simp add: example_env_def)
  have e: "entry_id example_entry_cloud = ''e1''"
    by (simp add: example_entry_cloud_def)
  show ?thesis
    using h1 h2 unload_removes_iff_ok [OF h1 h2, of example_constants]
      unload_removes_iff_ok [OF h1 h3, of example_constants]
    by (simp add: e)
qed

text \<open>
  C10. async_unload_entry leaves the bundle of every other entry identifier as it was,
  whatever the platform-unload step does (reports success, reports failure, or raises).
\<close>

theorem unload_frame:
  assumes "k \<noteq> entry_id entry"
  shows "get_bundle (fst (async_unload_entry K E h entry)) k = get_bundle h k"
  using assms
  by (auto simp: async_unload_entry_def Let_def get_bundle_def split: option.splits sum.splits)

theorem unload_frame_witness:
  "''e2'' \<noteq> entry_id example_entry_cloud \<and>
   get_bundle (fst (async_unload_entry example_constants example_env
                      example_hass_loaded example_entry_cloud)) ''e2'' = Some example_other_bundle"
proof -
  have h1: "''e2'' \<noteq> entry_id example_entry_cloud"
    by (simp add: example_entry_cloud_def)
  have "get_bundle example_hass_loaded ''e2'' = Some example_other_bundle"
    by (simp add: get_bundle_def example_hass_loaded_def)
  then show ?thesis
    using h1 unload_frame [OF h1, of example_constants example_env example_hass_loaded]
    by simp
qed


section \<open>Migration\<close>

text \<open>
  C3. For an entry at version 1 that has the hub field (the two keys being different
  names, and the API-type key different from both), async_migrate_entry returns True and
  leaves the entry at version 2 with the server field holding the old hub value, no hub
  field, the API-type field equal to "cloud" and every other field unchanged; the
  migrated entry is the one persisted under the entry's identifier.
\<close>

theorem migrate_v1:
  assumes "version entry = 1"
    and "entry_data entry (CONF_HUB K) = Some hub"
    and "CONF_HUB K \<noteq> CONF_SERVER K"
    and "CONF_API_TYPE K \<noteq> CONF_SERVER K"
    and "CONF_API_TYPE K \<noteq> CONF_HUB K"
  shows "(let ((h', entry'), r) = async_migrate_entry K h entry in
          r = Inr True \<and>
          version entry' = 2 \<and>
          entry_data entry' (CONF_SERVER K) = Some hub \<and>
          entry_data entry' (CONF_HUB K) = None \<and>
          entry_data entry' (CONF_API_TYPE K) = Some ''cloud'' \<and>
          (\<forall>k. k \<notin> {CONF_SERVER K, CONF_HUB K, CONF_API_TYPE K} \<longrightarrow>
               entry_data entry' k = entry_data entry k) \<and>
          entry_id entry' = entry_id entry \<and>
          config_entries h' (entry_id entry) = Some entry' \<and>
          calls h' = calls h @ [UpdateEntry (entry_id entry)])"
  using assms
  by (simp add: async_migrate_entry_def getitem_def async_update_entry_def Let_def
      APIType_CLOUD_def record_call_def)

theorem migrate_v1_witness:
  "(let ((h', entry'), r) = async_migrate_entry example_constants example_hass example_entry_v1 in
          r = Inr True \<and>
          version entry' = 2 \<and>
          entry_data entry' ''server'' = Some ''somfy_europe'' \<and>
          entry_data entry' ''hub'' = None \<and>
          entry_data entry' ''api_type'' = Some ''cloud'' \<and>
          entry_data entry' ''username'' = Some ''u'' \<and>
          config_entries h' ''e1'' = Some entry')"
proof -
  have h1: "version example_entry_v1 = 1"
    by (simp add: example_entry_v1_def)
  have h2: "entry_data example_entry_v1 (CONF_HUB example_constants) = Some ''somfy_europe''"
    by (simp add: example_entry_v1_def example_constants_def)
  have h3: "CONF_HUB example_constants \<noteq> CONF_SERVER example_constants"
    by (simp add: example_constants_def)
  have h4: "CONF_API_TYPE example_constants \<noteq> CONF_SERVER example_constants"
    by (simp add: example_constants_def)
  have h5: "CONF_API_TYPE example_constants \<noteq> CONF_HUB example_constants"
    by (simp add: example_constants_def)
  have k: "CONF_SERVER example_constants = ''server''" "CONF_HUB example_constants = ''hub''"
    "CONF_API_TYPE example_constants = ''api_type''"
    by (simp_all add: example_constants_def)
  have u: "entry_data example_entry_v1 ''username'' = Some ''u''" "entry_id example_entry_v1 = ''e1''"
    by (simp_all add: example_entry_v1_def)
  show ?thesis
    using migrate_v1 [OF h1 h2 h3 h4 h5, of example_hass] u
    by (simp add: k split: prod.splits)
qed

text \<open>
  C4. On an entry whose version is not 1, async_migrate_entry changes neither the
  framework object nor the entry and returns True. Calling it again on the state a first
  call has left gives that same state and the same outcome.
\<close>

theorem migrate_noop_idempotent:
  "(version entry \<noteq> 1 \<longrightarrow> async_migrate_entry K h entry = ((h, entry), Inr True)) \<and>
   (let (s', r) = async_migrate_entry K h entry in
      async_migrate_entry K (fst s') (snd s') = (s', r))"
  by (simp add: async_migrate_entry_def getitem_def async_update_entry_def Let_def
      split: option.splits)

theorem migrate_noop_idempotent_witness:
  "version example_entry_cloud \<noteq> 1 \<and>
   async_migrate_entry example_constants example_hass example_entry_cloud =
     ((example_hass, example_entry_cloud), Inr True) \<and>
   (let (s', r) = async_migrate_entry example_constants example_hass example_entry_v1 in
      async_migrate_entry example_constants (fst s') (snd s') = (s', r))"
proof -
  have h1: "version example_entry_cloud \<noteq> 1"
    by (simp add: example_entry_cloud_def)
  show ?thesis
    using h1 migrate_noop_idempotent [of example_entry_cloud example_constants example_hass]
      migrate_noop_idempotent [of example_entry_v1 example_constants example_hass]
    by simp
qed

section \<open>Client construction\<close>

text \<open>
  C5. For an entry whose API type is local, the client construction does not depend on
  the username and password fields: an entry that differs from it at most in those two
  fields gives the same result. When a client is built, its session has certificate
  verification disabled, it is the only session created, and the client's username and
  password are empty.
\<close>

theorem local_client_ignores_credentials:
  assumes "entry_data entry (CONF_API_TYPE K) = Some APIType_LOCAL"
    and "CONF_API_TYPE K \<noteq> CONF_USERNAME"
    and "CONF_API_TYPE K \<noteq> CONF_PASSWORD"
    and "\<forall>k. k \<noteq> CONF_USERNAME \<and> k \<noteq> CONF_PASSWORD \<longrightarrow> entry_data entry' k = entry_data entry k"
  shows "make_client K E h entry' = make_client K E h entry \<and>
         (\<forall>c. snd (make_client K E h entry) = Inr c \<longrightarrow>
              verify_ssl (session c) = False \<and> username c = [] \<and> password c = [] \<and>
              new_calls h (fst (make_client K E h entry)) = [CreateClientSession False])"
proof -
  have a: "getitem (entry_data entry') (CONF_API_TYPE K) = getitem (entry_data entry) (CONF_API_TYPE K)"
    using assms(2,3,4) by (simp add: getitem_def)
  have b: "getitem (entry_data entry') CONF_HOST = getitem (entry_data entry) CONF_HOST"
    using assms(4) by (simp add: getitem_def CONF_HOST_def CONF_USERNAME_def CONF_PASSWORD_def)
  have c: "getitem (entry_data entry') CONF_TOKEN = getitem (entry_data entry) CONF_TOKEN"
    using assms(4) by (simp add: getitem_def CONF_TOKEN_def CONF_USERNAME_def CONF_PASSWORD_def)
  have l: "getitem (entry_data entry) (CONF_API_TYPE K) = Inr APIType_LOCAL"
    using assms(1) by (simp add: getitem_def)
  have same: "make_client K E h entry' = make_client K E h entry"
    unfolding make_client_def a l b c by simp
  have rest: "\<forall>c. snd (make_client K E h entry) = Inr c \<longrightarrow>
              verify_ssl (session c) = False \<and> username c = [] \<and> password c = [] \<and>
              new_calls h (fst (make_client K E h entry)) = [CreateClientSession False]"
    using assms(1)
    by (auto simp: make_client_def getitem_def async_create_clientsession_def new_calls_def
        record_call_def split: option.splits)
  from same rest show ?thesis by simp
qed

theorem local_client_ignores_credentials_witness:
  "make_client example_constants example_env example_hass
     (example_entry_local\<lparr>entry_data :=
        (entry_data example_entry_local)(''username'' \<mapsto> ''alice'', ''password'' \<mapsto> ''secret'')\<rparr>) =
   make_client example_constants example_env example_hass example_entry_local \<and>
   snd (make_client example_constants example_env example_hass example_entry_local) =
     Inr \<lparr>username = [], password = [], token = Some ''t0'', session = \<lparr>verify_ssl = False\<rparr>,
          server = generate_local_server example_env ''gw:8443''\<rparr> \<and>
   new_calls example_hass (fst (make_client example_constants example_env example_hass example_entry_local)) =
     [CreateClientSession False]"
proof -
  let ?entry' = "example_entry_local\<lparr>entry_data :=
        (entry_data example_entry_local)(''username'' \<mapsto> ''alice'', ''password'' \<mapsto> ''secret'')\<rparr>"
  have h1: "entry_data example_entry_local (CONF_API_TYPE example_constants) = Some APIType_LOCAL"
    by (simp add: example_entry_local_def example_constants_def APIType_LOCAL_def)
  have h2: "CONF_API_TYPE example_constants \<noteq> CONF_USERNAME"
    by (simp add: example_constants_def CONF_USERNAME_def)
  have h3: "CONF_API_TYPE example_constants \<noteq> CONF_PASSWORD"
    by (simp add: example_constants_def CONF_PASSWORD_def)
  have h4: "\<forall>k. k \<noteq> CONF_USERNAME \<and> k \<noteq> CONF_PASSWORD \<longrightarrow>
              entry_data ?entry' k = entry_data example_entry_local k"
    by (simp add: CONF_USERNAME_def CONF_PASSWORD_def)
  have c: "snd (make_client example_constants example_env example_hass example_entry_local) =
     Inr \<lparr>username = [], password = [], token = Some ''t0'', session = \<lparr>verify_ssl = False\<rparr>,
          server = generate_local_server example_env ''gw:8443''\<rparr>"
    by (simp add: make_client_def getitem_def example_constants_def example_entry_local_def
        APIType_LOCAL_def CONF_HOST_def CONF_TOKEN_def async_create_clientsession_def)
  from local_client_ignores_credentials [OF h1 h2 h3 h4, of example_env example_hass] c
  show ?thesis by simp
qed


section \<open>Setup after the inventory fetch\<close>

lemma register_gateways_data:
  "hass_data_domain (fst (register_gateways K E entry client h gs)) = hass_data_domain h"
  by (induction gs arbitrary: h) (auto simp: Let_def split: option.splits)

lemma register_gateways_ok:
  assumes "\<forall>g \<in> set gs. get_or_create_result E (gateway_entry K entry client g) = None"
  shows "snd (register_gateways K E entry client h gs) = None"
  using assms by (induction gs arbitrary: h) (auto simp: Let_def)

lemma get_bundle_store_bundle [simp]: "get_bundle (store_bundle h k b) k = Some b"
  by (simp add: get_bundle_def store_bundle_def)

lemma store_bundle_twice [simp]: "store_bundle (store_bundle h k b) k b' = store_bundle h k b'"
  by (simp add: store_bundle_def)

lemma finish_setup_refresh_failure:
  assumes "first_refresh_result E = Inl e"
  shows "snd (finish_setup K E h entry client setup scs) = Inl e \<and>
         hass_data_domain (fst (finish_setup K E h entry client setup scs)) = hass_data_domain h"
  using assms
  by (simp add: finish_setup_def async_config_entry_first_refresh_def Let_def)

lemma finish_setup_after_refresh:
  assumes "first_refresh_result E = Inr d"
  shows "finish_setup K E h entry client setup scs =
     (case register_gateways K E entry client
             (store_bundle (record_call FirstRefresh (record_call (NewCoordinator (entry_id entry)) h))
                (entry_id entry) (setup_bundle K E entry client setup scs d))
             (gateways setup) of
        (h5, Some e) \<Rightarrow> (h5, Inl e)
      | (h5, None) \<Rightarrow>
          (case forward_result E of
             Some e \<Rightarrow> (record_call (ForwardEntrySetups (entry_id entry) (PLATFORMS K)) h5, Inl e)
           | None \<Rightarrow> (record_call (ForwardEntrySetups (entry_id entry) (PLATFORMS K)) h5, Inr True)))"
  using assms
  by (cases "stateless_result E")
     (simp_all add: finish_setup_def async_config_entry_first_refresh_def Let_def
        new_coordinator_def setup_bundle_def)

lemma finish_setup_bundle:
  assumes "first_refresh_result E = Inr d"
  shows "get_bundle (fst (finish_setup K E h entry client setup scs)) (entry_id entry) =
           Some (setup_bundle K E entry client setup scs d)"
proof -
  let ?h4 = "store_bundle (record_call FirstRefresh (record_call (NewCoordinator (entry_id entry)) h))
                (entry_id entry) (setup_bundle K E entry client setup scs d)"
  obtain h5 r where rg: "register_gateways K E entry client ?h4 (gateways setup) = (h5, r)"
    by (cases "register_gateways K E entry client ?h4 (gateways setup)") auto
  have h5: "hass_data_domain h5 = hass_data_domain ?h4"
    using register_gateways_data [of K E entry client ?h4 "gateways setup"] by (simp add: rg)
  have "hass_data_domain (fst (finish_setup K E h entry client setup scs)) = hass_data_domain h5"
    by (simp add: finish_setup_after_refresh [OF assms] rg split: option.splits)
  then have "hass_data_domain (fst (finish_setup K E h entry client setup scs)) = hass_data_domain ?h4"
    using h5 by simp
  then have "get_bundle (fst (finish_setup K E h entry client setup scs)) (entry_id entry) =
             get_bundle ?h4 (entry_id entry)"
    by (simp add: get_bundle_def)
  then show ?thesis by simp
qed

lemma finish_setup_ok:
  assumes "first_refresh_result E = Inr d"
    and "\<forall>g \<in> set (gateways setup). get_or_create_result E (gateway_entry K entry client g) = None"
    and "forward_result E = None"
  shows "snd (finish_setup K E h entry client setup scs) = Inr True"
proof -
  let ?h4 = "store_bundle (record_call FirstRefresh (record_call (NewCoordinator (entry_id entry)) h))
                (entry_id entry) (setup_bundle K E entry client setup scs d)"
  have "snd (register_gateways K E entry client ?h4 (gateways setup)) = None"
    using assms(2) by (rule register_gateways_ok)
  then obtain h5 where rg: "register_gateways K E entry client ?h4 (gateways setup) = (h5, None)"
    by (cases "register_gateways K E entry client ?h4 (gateways setup)") auto
  show ?thesis
    using assms(3) by (simp add: finish_setup_after_refresh [OF assms(1)] rg)
qed

lemma setup_reaches_finish:
  assumes "snd (make_client K E h entry) = Inr client"
    and "login_result E = Inr u"
    and "gather E = Inr (setup, scs)"
  shows "async_setup_entry K E h entry =
           finish_setup K E
             (fst (login_and_fetch E (fst (make_client K E h entry)))) entry client setup scs"
proof -
  obtain h1 where mc: "make_client K E h entry = (h1, Inr client)"
    using assms(1) by (cases "make_client K E h entry") auto
  have "snd (login_and_fetch E h1) = Inr (setup, scs)"
    using assms(2,3) by (simp add: login_and_fetch_result)
  then obtain h2 where lf: "login_and_fetch E h1 = (h2, Inr (setup, scs))"
    by (cases "login_and_fetch E h1") auto
  show ?thesis
    using mc lf by (simp add: async_setup_entry_def)
qed

lemma bucket_map_devices:
  "bucket (map_devices K ds pf) p = bucket pf p @ filter (\<lambda>d. lookup_platform K d = Some p) ds"
proof (induction ds arbitrary: pf)
  case Nil
  then show ?case by simp
next
  case (Cons d ds)
  show ?case
  proof (cases "lookup_platform K d")
    case None
    then show ?thesis using Cons.IH [of pf] by simp
  next
    case (Some q)
    have "bucket (append_device pf q d) p = bucket pf p @ (if q = p then [d] else [])"
      by (simp add: append_device_def bucket_def)
    then show ?thesis using Some Cons.IH [of "append_device pf q d"] by auto
  qed
qed

lemma bucket_empty [simp]: "bucket Map.empty p = []"
  by (simp add: bucket_def)

lemma in_bucket_iff:
  "dev \<in> set (bucket (map_devices K ds Map.empty) p) \<longleftrightarrow>
     dev \<in> set ds \<and> lookup_platform K dev = Some p"
  by (simp add: bucket_map_devices)

lemma example_gather: "gather example_env = Inr (example_setup, [''evening''])"
  by (simp add: gather_def example_env_def)

lemma example_lookups:
  "dict_get (OVERKIZ_DEVICE_TO_PLATFORM example_constants) (widget example_tank) = Some (Platform ''switch'')"
  "dict_get (OVERKIZ_DEVICE_TO_PLATFORM example_constants) (ui_class example_tank) = Some (Platform ''water_heater'')"
  "dict_get (OVERKIZ_DEVICE_TO_PLATFORM example_constants) (widget example_lamp) = None"
  "dict_get (OVERKIZ_DEVICE_TO_PLATFORM example_constants) (ui_class example_lamp) = Some (Platform ''light'')"
  "dict_get (OVERKIZ_DEVICE_TO_PLATFORM example_constants) (widget example_pod) = None"
  "dict_get (OVERKIZ_DEVICE_TO_PLATFORM example_constants) (ui_class example_pod) = None"
  by (simp_all add: dict_get_def example_constants_def example_tank_def example_lamp_def
      example_pod_def)

lemma before_refresh_data:
  "hass_data_domain (fst (login_and_fetch E (fst (make_client K E h entry)))) = hass_data_domain h"
proof -
  obtain h1 r1 where mc: "make_client K E h entry = (h1, r1)"
    by (cases "make_client K E h entry") auto
  obtain h2 r2 where lf: "login_and_fetch E h1 = (h2, r2)"
    by (cases "login_and_fetch E h1") auto
  show ?thesis
    using make_client_effects [OF mc] login_and_fetch_effects [OF lf] by (simp add: mc lf)
qed

lemma setup_client_failure:
  assumes "isl (snd (make_client K E h entry))"
  shows "isl (snd (async_setup_entry K E h entry)) \<and>
         hass_data_domain (fst (async_setup_entry K E h entry)) = hass_data_domain h"
proof -
  obtain h1 e where mc: "make_client K E h entry = (h1, Inl e)"
    using assms by (cases "make_client K E h entry") (auto simp: isl_def)
  show ?thesis
    using make_client_effects [OF mc] by (simp add: async_setup_entry_def mc)
qed

lemma finish_setup_forward_failure:
  assumes "first_refresh_result E = Inr d"
    and "\<forall>g \<in> set (gateways setup). get_or_create_result E (gateway_entry K entry client g) = None"
    and "forward_result E = Some e"
  shows "snd (finish_setup K E h entry client setup scs) = Inl e"
proof -
  let ?h4 = "store_bundle (record_call FirstRefresh (record_call (NewCoordinator (entry_id entry)) h))
                (entry_id entry) (setup_bundle K E entry client setup scs d)"
  have "snd (register_gateways K E entry client ?h4 (gateways setup)) = None"
    using assms(2) by (rule register_gateways_ok)
  then obtain h5 where rg: "register_gateways K E entry client ?h4 (gateways setup) = (h5, None)"
    by (cases "register_gateways K E entry client ?h4 (gateways setup)") auto
  show ?thesis
    using assms(3) by (simp add: finish_setup_after_refresh [OF assms(1)] rg)
qed

text \<open>
  C8. When the client is built and login, the inventory fetch and the coordinator's first
  refresh succeed, the bundle stored for the entry holds a coordinator whose polling
  interval is UPDATE_INTERVAL_ALL_ASSUMED_STATE if the coordinator is stateless, and
  otherwise the UPDATE_INTERVAL it was constructed with.
\<close>

theorem polling_interval:
  assumes "snd (make_client K E h entry) = Inr client"
    and "login_result E = Inr u"
    and "gather E = Inr (setup, scs)"
    and "first_refresh_result E = Inr d"
  shows "\<exists>b. get_bundle (fst (async_setup_entry K E h entry)) (entry_id entry) = Some b \<and>
             is_stateless (coordinator b) = stateless_result E \<and>
             update_interval (coordinator b) =
               (if is_stateless (coordinator b) then UPDATE_INTERVAL_ALL_ASSUMED_STATE K
                else UPDATE_INTERVAL K)"
proof -
  have "get_bundle (fst (async_setup_entry K E h entry)) (entry_id entry) =
          Some (setup_bundle K E entry client setup scs d)"
    using setup_reaches_finish [OF assms(1,2,3)] finish_setup_bundle [OF assms(4)] by simp
  then show ?thesis
    by (simp add: setup_bundle_def new_coordinator_def)
qed

theorem polling_interval_witness:
  "map_option (\<lambda>b. (is_stateless (coordinator b), update_interval (coordinator b)))
     (get_bundle (fst (async_setup_entry example_constants (example_env\<lparr>stateless_result := True\<rparr>)
        example_hass example_entry_cloud)) ''e1'') = Some (True, 3600) \<and>
   map_option (\<lambda>b. (is_stateless (coordinator b), update_interval (coordinator b)))
     (get_bundle (fst (async_setup_entry example_constants example_env
        example_hass example_entry_cloud)) ''e1'') = Some (False, 30)"
proof -
  let ?E = "example_env\<lparr>stateless_result := True\<rparr>"
  have c1: "snd (make_client example_constants ?E example_hass example_entry_cloud) = Inr example_client"
    by (simp add: example_cloud_client example_env_def example_client_def)
  have c2: "snd (make_client example_constants example_env example_hass example_entry_cloud) = Inr example_client"
    by (simp add: example_cloud_client example_env_def example_client_def)
  have l1: "login_result ?E = Inr ()" and l2: "login_result example_env = Inr ()"
    by (simp_all add: example_env_def)
  have g1: "gather ?E = Inr (example_setup, [''evening''])"
    by (simp add: gather_def example_env_def)
  have r1: "first_refresh_result ?E =
        Inr [(''io://1'', example_lamp), (''io://2'', example_tank), (''internal://3'', example_pod)]"
    and r2: "first_refresh_result example_env =
        Inr [(''io://1'', example_lamp), (''io://2'', example_tank), (''internal://3'', example_pod)]"
    by (simp_all add: example_env_def)
  have s: "stateless_result ?E = True" "stateless_result example_env = False"
    "UPDATE_INTERVAL example_constants = 30"
    "UPDATE_INTERVAL_ALL_ASSUMED_STATE example_constants = 3600"
    "entry_id example_entry_cloud = ''e1''"
    by (simp_all add: example_env_def example_constants_def example_entry_cloud_def)
  show ?thesis
    using polling_interval [OF c1 l1 g1 r1] polling_interval [OF c2 l2 example_gather r2]
    by (auto simp: s)
qed

text \<open>
  C9. When every external step of the setup succeeds, the call returns True whatever the
  devices are, and for every device the coordinator holds after the first refresh: if the
  widget lookup gives a platform, the device is in the bucket of that platform and in no
  other (whatever its UI class maps to); if the widget lookup gives nothing and the
  UI-class lookup gives a platform, it is in the bucket of that platform and in no other;
  if both lookups give nothing, it is in no bucket.
\<close>

theorem device_classification:
  assumes "snd (make_client K E h entry) = Inr client"
    and "login_result E = Inr u"
    and "gather E = Inr (setup, scs)"
    and "first_refresh_result E = Inr d"
    and "\<forall>g \<in> set (gateways setup). get_or_create_result E (gateway_entry K entry client g) = None"
    and "forward_result E = None"
    and "dev \<in> set (map snd d)"
  shows "snd (async_setup_entry K E h entry) = Inr True \<and>
         (\<exists>b. get_bundle (fst (async_setup_entry K E h entry)) (entry_id entry) = Some b \<and>
           (\<forall>p. dict_get (OVERKIZ_DEVICE_TO_PLATFORM K) (widget dev) = Some p \<longrightarrow>
                (\<forall>q. dev \<in> set (bucket (platforms b) q) \<longleftrightarrow> q = p)) \<and>
           (\<forall>p. dict_get (OVERKIZ_DEVICE_TO_PLATFORM K) (widget dev) = None \<and>
                dict_get (OVERKIZ_DEVICE_TO_PLATFORM K) (ui_class dev) = Some p \<longrightarrow>
                (\<forall>q. dev \<in> set (bucket (platforms b) q) \<longleftrightarrow> q = p)) \<and>
           (dict_get (OVERKIZ_DEVICE_TO_PLATFORM K) (widget dev) = None \<and>
            dict_get (OVERKIZ_DEVICE_TO_PLATFORM K) (ui_class dev) = None \<longrightarrow>
                (\<forall>q. dev \<notin> set (bucket (platforms b) q))))"
proof -
  let ?b = "setup_bundle K E entry client setup scs d"
  have eq: "async_setup_entry K E h entry =
           finish_setup K E
             (fst (login_and_fetch E (fst (make_client K E h entry)))) entry client setup scs"
    using assms(1,2,3) by (rule setup_reaches_finish)
  have ok: "snd (async_setup_entry K E h entry) = Inr True"
    using eq finish_setup_ok [OF assms(4,5,6)] by simp
  have b: "get_bundle (fst (async_setup_entry K E h entry)) (entry_id entry) = Some ?b"
    using eq finish_setup_bundle [OF assms(4)] by simp
  have mem: "\<And>q. dev \<in> set (bucket (platforms ?b) q) \<longleftrightarrow> lookup_platform K dev = Some q"
    using assms(7) by (simp add: setup_bundle_def in_bucket_iff)
  have c1: "\<forall>p. dict_get (OVERKIZ_DEVICE_TO_PLATFORM K) (widget dev) = Some p \<longrightarrow>
                (\<forall>q. dev \<in> set (bucket (platforms ?b) q) \<longleftrightarrow> q = p)"
    unfolding mem by (auto simp: lookup_platform_def)
  have c2: "\<forall>p. dict_get (OVERKIZ_DEVICE_TO_PLATFORM K) (widget dev) = None \<and>
                dict_get (OVERKIZ_DEVICE_TO_PLATFORM K) (ui_class dev) = Some p \<longrightarrow>
                (\<forall>q. dev \<in> set (bucket (platforms ?b) q) \<longleftrightarrow> q = p)"
    unfolding mem by (auto simp: lookup_platform_def)
  have c3: "dict_get (OVERKIZ_DEVICE_TO_PLATFORM K) (widget dev) = None \<and>
            dict_get (OVERKIZ_DEVICE_TO_PLATFORM K) (ui_class dev) = None \<longrightarrow>
                (\<forall>q. dev \<notin> set (bucket (platforms ?b) q))"
    unfolding mem by (auto simp: lookup_platform_def)
  from ok b c1 c2 c3 show ?thesis by blast
qed

theorem device_classification_witness:
  "snd (async_setup_entry example_constants example_env example_hass example_entry_cloud) = Inr True \<and>
   (\<exists>b. get_bundle (fst (async_setup_entry example_constants example_env example_hass
                           example_entry_cloud)) ''e1'' = Some b \<and>
        (\<forall>q. example_tank \<in> set (bucket (platforms b) q) \<longleftrightarrow> q = Platform ''switch'') \<and>
        (\<forall>q. example_lamp \<in> set (bucket (platforms b) q) \<longleftrightarrow> q = Platform ''light'') \<and>
        (\<forall>q. example_pod \<notin> set (bucket (platforms b) q)))"
proof -
  let ?d = "[(''io://1'', example_lamp), (''io://2'', example_tank), (''internal://3'', example_pod)]"
  have c: "snd (make_client example_constants example_env example_hass example_entry_cloud) = Inr example_client"
    by (simp add: example_cloud_client example_env_def example_client_def)
  have l: "login_result example_env = Inr ()"
    by (simp add: example_env_def)
  have r: "first_refresh_result example_env = Inr ?d"
    by (simp add: example_env_def)
  have g: "\<forall>g \<in> set (gateways example_setup).
             get_or_create_result example_env
               (gateway_entry example_constants example_entry_cloud example_client g) = None"
    by (simp add: example_env_def)
  have f: "forward_result example_env = None"
    by (simp add: example_env_def)
  have m: "example_tank \<in> set (map snd ?d)" "example_lamp \<in> set (map snd ?d)"
    "example_pod \<in> set (map snd ?d)"
    by simp_all
  have e: "entry_id example_entry_cloud = ''e1''"
    by (simp add: example_entry_cloud_def)
  show ?thesis
    using device_classification [OF c l example_gather r g f m(1)]
      device_classification [OF c l example_gather r g f m(2)]
      device_classification [OF c l example_gather r g f m(3)]
    by (auto simp: e example_lookups)
qed

section \<open>Setup: what a failed call leaves in the registry\<close>

lemma example_forward_failure_eq:
  "async_setup_entry example_constants
     (example_env\<lparr>forward_result := Some (OtherException ''platform setup failed'')\<rparr>)
     example_hass example_entry_cloud =
   finish_setup example_constants
     (example_env\<lparr>forward_result := Some (OtherException ''platform setup failed'')\<rparr>)
     (fst (login_and_fetch (example_env\<lparr>forward_result := Some (OtherException ''platform setup failed'')\<rparr>)
        (fst (make_client example_constants
           (example_env\<lparr>forward_result := Some (OtherException ''platform setup failed'')\<rparr>)
           example_hass example_entry_cloud))))
     example_entry_cloud example_client example_setup [''evening'']"
proof -
  let ?E = "example_env\<lparr>forward_result := Some (OtherException ''platform setup failed'')\<rparr>"
  have c: "snd (make_client example_constants ?E example_hass example_entry_cloud) = Inr example_client"
    by (simp add: example_cloud_client example_env_def example_client_def)
  have l: "login_result ?E = Inr ()"
    by (simp add: example_env_def)
  have g: "gather ?E = Inr (example_setup, [''evening''])"
    by (simp add: gather_def example_env_def)
  show ?thesis
    using c l g by (rule setup_reaches_finish)
qed

lemma example_forward_failure:
  "snd (async_setup_entry example_constants
     (example_env\<lparr>forward_result := Some (OtherException ''platform setup failed'')\<rparr>)
     example_hass example_entry_cloud) = Inl (OtherException ''platform setup failed'')"
proof -
  let ?E = "example_env\<lparr>forward_result := Some (OtherException ''platform setup failed'')\<rparr>"
  let ?d = "[(''io://1'', example_lamp), (''io://2'', example_tank), (''internal://3'', example_pod)]"
  have r: "first_refresh_result ?E = Inr ?d"
    by (simp add: example_env_def)
  have gw: "\<forall>g \<in> set (gateways example_setup).
             get_or_create_result ?E
               (gateway_entry example_constants example_entry_cloud example_client g) = None"
    by (simp add: example_env_def)
  have f: "forward_result ?E = Some (OtherException ''platform setup failed'')"
    by simp
  show ?thesis
    unfolding example_forward_failure_eq
    using r gw f by (rule finish_setup_forward_failure)
qed

lemma example_forward_failure_bundle:
  "get_bundle (fst (async_setup_entry example_constants
     (example_env\<lparr>forward_result := Some (OtherException ''platform setup failed'')\<rparr>)
     example_hass example_entry_cloud)) (entry_id example_entry_cloud) =
   Some (setup_bundle example_constants
     (example_env\<lparr>forward_result := Some (OtherException ''platform setup failed'')\<rparr>)
     example_entry_cloud example_client example_setup [''evening'']
     [(''io://1'', example_lamp), (''io://2'', example_tank), (''internal://3'', example_pod)])"
proof -
  let ?E = "example_env\<lparr>forward_result := Some (OtherException ''platform setup failed'')\<rparr>"
  let ?d = "[(''io://1'', example_lamp), (''io://2'', example_tank), (''internal://3'', example_pod)]"
  have r: "first_refresh_result ?E = Inr ?d"
    by (simp add: example_env_def)
  show ?thesis
    unfolding example_forward_failure_eq
    using r by (rule finish_setup_bundle)
qed

text \<open>
  C1, as stated, fails: when the forwarding to the platforms raises, the call fails and
  the bundle stored at line 158 is still in the registry, where there was none before.
\<close>

theorem setup_failure_keeps_bundle_counterexample:
  "snd (async_setup_entry example_constants
          (example_env\<lparr>forward_result := Some (OtherException ''platform setup failed'')\<rparr>)
          example_hass example_entry_cloud) = Inl (OtherException ''platform setup failed'') \<and>
   get_bundle example_hass ''e1'' = None \<and>
   get_bundle (fst (async_setup_entry example_constants
          (example_env\<lparr>forward_result := Some (OtherException ''platform setup failed'')\<rparr>)
          example_hass example_entry_cloud)) ''e1'' \<noteq> None"
proof -
  have e: "entry_id example_entry_cloud = ''e1''"
    by (simp add: example_entry_cloud_def)
  have n: "get_bundle example_hass ''e1'' = None"
    by (simp add: get_bundle_def example_hass_def)
  show ?thesis
    using example_forward_failure example_forward_failure_bundle n
    by (simp add: e)
qed

text \<open>
  C1, amended. When async_setup_entry fails at the client construction, at login, at the
  inventory fetch or at the coordinator's first refresh, the call raises and the registry
  is exactly as it was before the call. When these four steps succeed and the call still
  fails (at the gateway registration or at the forwarding to the platforms), the bundle
  stored at line 158 remains in the registry under the entry's identifier.
\<close>

theorem setup_failure_registry:
  "(isl (snd (make_client K E h entry)) \<or> isl (login_result E) \<or> isl (gather E) \<or>
    isl (first_refresh_result E) \<longrightarrow>
      isl (snd (async_setup_entry K E h entry)) \<and>
      hass_data_domain (fst (async_setup_entry K E h entry)) = hass_data_domain h) \<and>
   (\<not> isl (snd (make_client K E h entry)) \<and> \<not> isl (login_result E) \<and> \<not> isl (gather E) \<and>
    \<not> isl (first_refresh_result E) \<and> isl (snd (async_setup_entry K E h entry)) \<longrightarrow>
      get_bundle (fst (async_setup_entry K E h entry)) (entry_id entry) \<noteq> None)"
proof (cases "snd (make_client K E h entry)")
  case (Inl e)
  then show ?thesis using setup_client_failure [of K E h entry] by simp
next
  case c: (Inr client)
  show ?thesis
  proof (cases "snd (login_and_fetch E (fst (make_client K E h entry)))")
    case (Inl e)
    have "isl (login_result E) \<or> isl (gather E)"
      using Inl by (auto simp: login_and_fetch_result isl_def split: sum.splits)
    then show ?thesis
      using setup_early_failure_effects [OF c Inl] by auto
  next
    case (Inr p)
    obtain st scs where p: "p = (st, scs)" by (cases p)
    obtain u where l: "login_result E = Inr u"
      using Inr by (auto simp: login_and_fetch_result split: sum.splits)
    have g: "gather E = Inr (st, scs)"
      using Inr l p by (simp add: login_and_fetch_result)
    have eq: "async_setup_entry K E h entry =
           finish_setup K E
             (fst (login_and_fetch E (fst (make_client K E h entry)))) entry client st scs"
      using c l g by (rule setup_reaches_finish)
    show ?thesis
    proof (cases "first_refresh_result E")
      case (Inl e)
      show ?thesis
        using finish_setup_refresh_failure [OF Inl, of K
            "fst (login_and_fetch E (fst (make_client K E h entry)))" entry client st scs]
        by (simp add: eq Inl before_refresh_data)
    next
      case (Inr d)
      show ?thesis
        using finish_setup_bundle [OF Inr, of K
            "fst (login_and_fetch E (fst (make_client K E h entry)))" entry client st scs]
        by (simp add: eq Inr c l g)
    qed
  qed
qed

theorem setup_failure_registry_witness:
  "isl (snd (async_setup_entry example_constants
          (example_env\<lparr>first_refresh_result := Inl TimeoutError\<rparr>) example_hass_loaded
          (example_entry_cloud\<lparr>entry_id := ''e3''\<rparr>))) \<and>
   hass_data_domain (fst (async_setup_entry example_constants
          (example_env\<lparr>first_refresh_result := Inl TimeoutError\<rparr>) example_hass_loaded
          (example_entry_cloud\<lparr>entry_id := ''e3''\<rparr>))) = hass_data_domain example_hass_loaded \<and>
   get_bundle (fst (async_setup_entry example_constants
          (example_env\<lparr>first_refresh_result := Inl TimeoutError\<rparr>) example_hass_loaded
          (example_entry_cloud\<lparr>entry_id := ''e3''\<rparr>))) ''e3'' = None \<and>
   get_bundle (fst (async_setup_entry example_constants
          (example_env\<lparr>forward_result := Some (OtherException ''platform setup failed'')\<rparr>)
          example_hass example_entry_cloud)) (entry_id example_entry_cloud) \<noteq> None"
proof -
  let ?E = "example_env\<lparr>first_refresh_result := Inl TimeoutError\<rparr>"
  let ?F = "example_env\<lparr>forward_result := Some (OtherException ''platform setup failed'')\<rparr>"
  have h: "isl (first_refresh_result ?E)"
    by simp
  have n: "get_bundle example_hass_loaded ''e3'' = None"
    by (simp add: get_bundle_def example_hass_loaded_def)
  have first: "isl (snd (async_setup_entry example_constants ?E example_hass_loaded
                  (example_entry_cloud\<lparr>entry_id := ''e3''\<rparr>))) \<and>
      hass_data_domain (fst (async_setup_entry example_constants ?E example_hass_loaded
                  (example_entry_cloud\<lparr>entry_id := ''e3''\<rparr>))) = hass_data_domain example_hass_loaded"
    using h setup_failure_registry [of example_constants ?E example_hass_loaded
        "example_entry_cloud\<lparr>entry_id := ''e3''\<rparr>"]
    by simp
  have c: "\<not> isl (snd (make_client example_constants ?F example_hass example_entry_cloud))"
    by (simp add: example_cloud_client example_env_def)
  have l: "\<not> isl (login_result ?F)" "\<not> isl (gather ?F)" "\<not> isl (first_refresh_result ?F)"
    by (simp_all add: gather_def example_env_def)
  have f: "isl (snd (async_setup_entry example_constants ?F example_hass example_entry_cloud))"
    using example_forward_failure by simp
  have second: "get_bundle (fst (async_setup_entry example_constants ?F example_hass
                  example_entry_cloud)) (entry_id example_entry_cloud) \<noteq> None"
    using c l f setup_failure_registry [of example_constants ?F example_hass example_entry_cloud]
    by blast
  from first second n show ?thesis
    by (simp add: get_bundle_def)
qed

end
